theory Spec2Isabelle
  imports Main
begin

section \<open>Library behaviour used by the helper script\<close>

text \<open>
  A Python \<open>str\<close> is represented by its UTF-8 encoding, a list of 8-bit characters, so
  that \<open>bytes\<close> and \<open>str\<close> share the type \<open>string\<close> and \<open>bytes.decode()\<close> is the
  identity on well-formed input and raises otherwise.
\<close>

datatype error =
    OSError
  | CalledProcessError int
  | UnicodeDecodeError
  | FileExistsError
  | FileNotFoundError
  | IsADirectoryError
  | SameFileError
  | TypeError

subsection \<open>posixpath.join\<close>

text \<open>
  One round of the loop of \<open>posixpath.join\<close>: an absolute component replaces the path so
  far, otherwise it is appended, with a separator unless the path is empty or already ends
  with one.
\<close>

definition join_step :: "string \<Rightarrow> string \<Rightarrow> string" where
  "join_step path b =
     (if take 1 b = ''/'' then b
      else if path = [] \<or> last path = CHR ''/'' then path @ b
      else path @ ''/'' @ b)"

definition os_path_join :: "string \<Rightarrow> string list \<Rightarrow> string" where
  "os_path_join a p = foldl join_step a p"

subsection \<open>posixpath.normpath and posixpath.abspath\<close>

text \<open>\<open>str.split('/')\<close> and \<open>'/'.join\<close>.\<close>

fun split_sep :: "string \<Rightarrow> string list" where
  "split_sep [] = [[]]"
| "split_sep (c # cs) =
     (if c = CHR ''/'' then [] # split_sep cs
      else case split_sep cs of
        [] \<Rightarrow> [[c]]
      | x # xs \<Rightarrow> (c # x) # xs)"

fun sep_join :: "string list \<Rightarrow> string" where
  "sep_join [] = []"
| "sep_join [x] = x"
| "sep_join (x # y # ys) = x @ ''/'' @ sep_join (y # ys)"

text \<open>One round of the loop of \<open>normpath\<close> over the components of the path.\<close>

definition norm_step :: "nat \<Rightarrow> string list \<Rightarrow> string \<Rightarrow> string list" where
  "norm_step initial_slashes new_comps comp' =
     (if comp' = [] \<or> comp' = ''.'' then new_comps
      else if comp' \<noteq> ''..'' \<or> (initial_slashes = 0 \<and> new_comps = [])
              \<or> (new_comps \<noteq> [] \<and> last new_comps = ''..'')
        then new_comps @ [comp']
      else if new_comps \<noteq> [] then butlast new_comps
      else new_comps)"

definition normpath :: "string \<Rightarrow> string" where
  "normpath path =
     (if path = [] then ''.''
      else
        let initial_slashes =
              (if take 1 path = ''/''
               then (if take 2 path = ''//'' \<and> take 3 path \<noteq> ''///'' then 2 else 1)
               else (0::nat));
            comps = foldl (norm_step initial_slashes) [] (split_sep path);
            path = sep_join comps;
            path = (if initial_slashes \<noteq> 0 then replicate initial_slashes CHR ''/'' @ path
                    else path)
        in if path = [] then ''.'' else path)"

text \<open>\<open>abspath\<close> reads the working directory of the process, here a parameter.\<close>

definition abspath :: "string \<Rightarrow> string \<Rightarrow> string" where
  "abspath cwd path =
     normpath (if take 1 path = ''/'' then path else os_path_join cwd [path])"

subsection \<open>bytes.strip and bytes.decode\<close>

definition is_space :: "char \<Rightarrow> bool" where
  "is_space c \<longleftrightarrow>
     c \<in> set [CHR '' '', CHR 0x09, CHR 0x0A, CHR 0x0B, CHR 0x0C, CHR 0x0D]"

definition strip :: "string \<Rightarrow> string" where
  "strip s = rev (dropWhile is_space (rev (dropWhile is_space s)))"

text \<open>
  The lead byte of a multi-byte UTF-8 sequence fixes the number of bytes that follow and
  the range allowed for the first of them (the well-formed sequences of the Unicode
  standard, which the strict decoder of Python accepts and no others).
\<close>

definition lead :: "nat \<Rightarrow> (nat \<times> nat \<times> nat) option" where
  "lead a =
     (if 0xC2 \<le> a \<and> a \<le> 0xDF then Some (1, 0x80, 0xBF)
      else if a = 0xE0 then Some (2, 0xA0, 0xBF)
      else if a = 0xED then Some (2, 0x80, 0x9F)
      else if 0xE1 \<le> a \<and> a \<le> 0xEF then Some (2, 0x80, 0xBF)
      else if a = 0xF0 then Some (3, 0x90, 0xBF)
      else if 0xF1 \<le> a \<and> a \<le> 0xF3 then Some (3, 0x80, 0xBF)
      else if a = 0xF4 then Some (3, 0x80, 0x8F)
      else None)"

fun utf8_ok :: "nat list \<Rightarrow> bool" where
  "utf8_ok [] = True"
| "utf8_ok (a # bs) =
     (if a < 0x80 then utf8_ok bs
      else case lead a of
        None \<Rightarrow> False
      | Some (n, lo, hi) \<Rightarrow>
          n \<le> length bs \<and> lo \<le> hd bs \<and> hd bs \<le> hi
          \<and> (\<forall>c \<in> set (take (n - 1) (tl bs)). 0x80 \<le> c \<and> c \<le> 0xBF)
          \<and> utf8_ok (drop n bs))"

definition decode :: "string \<Rightarrow> error + string" where
  "decode bs = (if utf8_ok (map of_char bs) then Inr bs else Inl UnicodeDecodeError)"

subsection \<open>The file system and child processes\<close>

text \<open>
  The file system is a flat name space of path strings: the directories that exist and
  the regular files with their contents. Permissions, links and the parents of a path
  are not tracked.
\<close>

record filesystem =
  dirs :: "string set"
  files :: "string \<rightharpoonup> string"

definition path_exists :: "filesystem \<Rightarrow> string \<Rightarrow> bool" where
  "path_exists f p \<longleftrightarrow> p \<in> dirs f \<or> files f p \<noteq> None"

text \<open>
  What running an argument vector does is not part of the script: the system is a
  parameter that, for an argument vector and the current file system, either fails to
  start the program or gives the exit code, the bytes written to standard output and the
  file system the child leaves behind.
\<close>

datatype child = SpawnError | Returned int string filesystem

type_synonym system = "string list \<Rightarrow> filesystem \<Rightarrow> child"

text \<open>Every library call with an effect is recorded, in the order of the calls.\<close>

datatype event =
    Subprocess_call "string list"
  | Subprocess_check_output "string list"
  | Makedirs "string option"
  | Copyfile string string

record world =
  fs :: filesystem
  log :: "event list"

text \<open>\<open>subprocess.call\<close>: waits for the child and returns its exit code.\<close>

definition subprocess_call :: "system \<Rightarrow> string list \<Rightarrow> world \<Rightarrow> (error + int) \<times> world" where
  "subprocess_call sys cmd w =
     (case sys cmd (fs w) of
        SpawnError \<Rightarrow> (Inl OSError, w\<lparr>log := log w @ [Subprocess_call cmd]\<rparr>)
      | Returned rc out f \<Rightarrow> (Inr rc, \<lparr>fs = f, log = log w @ [Subprocess_call cmd]\<rparr>))"

text \<open>\<open>subprocess.check_output\<close>: a non-zero exit code raises, otherwise the output is returned.\<close>

definition subprocess_check_output ::
  "system \<Rightarrow> string list \<Rightarrow> world \<Rightarrow> (error + string) \<times> world" where
  "subprocess_check_output sys cmd w =
     (case sys cmd (fs w) of
        SpawnError \<Rightarrow> (Inl OSError, w\<lparr>log := log w @ [Subprocess_check_output cmd]\<rparr>)
      | Returned rc out f \<Rightarrow>
          (if rc \<noteq> 0 then Inl (CalledProcessError rc) else Inr out,
           \<lparr>fs = f, log = log w @ [Subprocess_check_output cmd]\<rparr>))"

text \<open>\<open>os.makedirs(name)\<close> with \<open>exist_ok\<close> left False: an existing path raises.\<close>

definition os_makedirs :: "string option \<Rightarrow> world \<Rightarrow> (error + unit) \<times> world" where
  "os_makedirs name w =
     (let w' = w\<lparr>log := log w @ [Makedirs name]\<rparr> in
      case name of
        None \<Rightarrow> (Inl TypeError, w')
      | Some p \<Rightarrow>
          if path_exists (fs w) p then (Inl FileExistsError, w')
          else if p = [] then (Inl FileNotFoundError, w')
          else (Inr (), w'\<lparr>fs := (fs w)\<lparr>dirs := insert p (dirs (fs w))\<rparr>\<rparr>))"

text \<open>\<open>shutil.copyfile(src, dst)\<close>: reads the source file and writes it under the new name.\<close>

definition shutil_copyfile :: "string \<Rightarrow> string \<Rightarrow> world \<Rightarrow> (error + unit) \<times> world" where
  "shutil_copyfile src dst w =
     (let w' = w\<lparr>log := log w @ [Copyfile src dst]\<rparr> in
      if src = dst \<and> path_exists (fs w) src then (Inl SameFileError, w')
      else if src \<in> dirs (fs w) then (Inl IsADirectoryError, w')
      else case files (fs w) src of
        None \<Rightarrow> (Inl FileNotFoundError, w')
      | Some content \<Rightarrow>
          if dst \<in> dirs (fs w) then (Inl IsADirectoryError, w')
          else (Inr (), w'\<lparr>fs := (fs w)\<lparr>files := (files (fs w))(dst \<mapsto> content)\<rparr>\<rparr>))"

section \<open>tools/swift-backtrace/build-script-helper.py\<close>

text \<open>The namespace that \<open>parser.parse_args()\<close> returns.\<close>

record args =
  action :: string
  verbose :: bool
  package_path :: string
  build_path :: string
  toolchain :: string
  install_path :: "string option"
  configuration :: string
  prefix :: "string option"

definition swift_path :: "args \<Rightarrow> string" where
  "swift_path args = os_path_join (toolchain args) [''bin'', ''swift'']"

definition get_args_for_swift :: "args \<Rightarrow> string \<Rightarrow> string \<Rightarrow> string list \<Rightarrow> string list" where
  "get_args_for_swift args act product extra_args =
     (let all_args = [swift_path args, act,
                      ''--package-path'', package_path args,
                      ''--scratch-path'', build_path args,
                      ''--configuration'', configuration args];
          all_args = all_args @ extra_args;
          all_args = (if act = ''test'' then all_args @ [''--test-product'', product]
                      else all_args @ [''--product'', product]);
          all_args = (if verbose args then all_args @ [''--verbose''] else all_args)
      in all_args)"

text \<open>
  \<open>invoke_swift\<close> has no \<open>return\<close>: the exit code that \<open>subprocess.call\<close> gives is dropped
  and the caller receives \<open>None\<close>.
\<close>

definition invoke_swift ::
  "system \<Rightarrow> args \<Rightarrow> string \<Rightarrow> string \<Rightarrow> string list \<Rightarrow> world \<Rightarrow> (error + unit) \<times> world" where
  "invoke_swift sys args act product extra_args w =
     (case subprocess_call sys (get_args_for_swift args act product extra_args) w of
        (Inl e, w') \<Rightarrow> (Inl e, w')
      | (Inr rc, w') \<Rightarrow> (Inr (), w'))"

definition get_binary_path ::
  "system \<Rightarrow> args \<Rightarrow> string \<Rightarrow> world \<Rightarrow> (error + string) \<times> world" where
  "get_binary_path sys args product w =
     (let cmd = get_args_for_swift args ''build'' product [''--show-bin-path''] in
      case subprocess_check_output sys cmd w of
        (Inl e, w') \<Rightarrow> (Inl e, w')
      | (Inr out, w') \<Rightarrow>
          (case decode (strip out) of
             Inl e \<Rightarrow> (Inl e, w')
           | Inr s \<Rightarrow> (Inr (os_path_join s [''swift-backtrace'']), w')))"

definition main :: "system \<Rightarrow> args \<Rightarrow> world \<Rightarrow> (error + unit) \<times> world" where
  "main sys args w =
     (if action args = ''build'' then invoke_swift sys args ''build'' ''swift-backtrace'' [] w
      else if action args = ''test'' then invoke_swift sys args ''test'' ''swift-backtrace'' [] w
      else if action args = ''install'' then
        (case invoke_swift sys args ''build'' ''swift-backtrace'' [] w of
           (Inl e, w1) \<Rightarrow> (Inl e, w1)
         | (Inr _, w1) \<Rightarrow>
             (case os_makedirs (install_path args) w1 of
                (Inl e, w2) \<Rightarrow> (Inl e, w2)
              | (Inr _, w2) \<Rightarrow>
                  (case get_binary_path sys args ''swift-backtrace'' w2 of
                     (Inl e, w3) \<Rightarrow> (Inl e, w3)
                   | (Inr built_binary, w3) \<Rightarrow>
                       (case install_path args of
                          None \<Rightarrow> (Inl TypeError, w3)
                        | Some ip \<Rightarrow>
                            shutil_copyfile built_binary
                              (os_path_join ip [''swift-backtrace'']) w3))))
      else (Inr (), w))"

text \<open>
  The exit status of the interpreter running the script: 0 when \<open>main\<close> returns, 1 when an
  exception leaves it.
\<close>

definition exit_status :: "(error + unit) \<times> world \<Rightarrow> int" where
  "exit_status r = (case fst r of Inl e \<Rightarrow> 1 | Inr _ \<Rightarrow> 0)"

text \<open>The configuration of the build scenario of the specification.\<close>

definition scenario_args :: args where
  "scenario_args =
     \<lparr>action = ''build'', verbose = False, package_path = ''/src/pkg'',
      build_path = ''/tmp/out'', toolchain = ''/opt/toolchain'', install_path = None,
      configuration = ''release'', prefix = None\<rparr>"

definition empty_world :: world where
  "empty_world = \<lparr>fs = \<lparr>dirs = {}, files = Map.empty\<rparr>, log = []\<rparr>"

text \<open>Two systems for concrete runs: every child exits with 1, or with 0, printing nothing.\<close>

definition failing_system :: system where
  "failing_system cmd f = Returned 1 [] f"

definition silent_system :: system where
  "silent_system cmd f = Returned 0 [] f"

text \<open>An install run whose install directory is already there.\<close>

definition installed_world :: world where
  "installed_world = \<lparr>fs = \<lparr>dirs = {''/inst/libexec/swift''}, files = Map.empty\<rparr>, log = []\<rparr>"

definition install_args :: args where
  "install_args = scenario_args\<lparr>action := ''install'', install_path := Some ''/inst/libexec/swift''\<rparr>"

section \<open>swift_build_support/products/swiftbacktrace.py\<close>

text \<open>
  The descriptor. What \<open>SwiftBacktrace\<close> inherits from \<open>product.Product\<close>, whose source is
  not among these files, is a field: the directories, the flags of \<open>self.args\<close>, the value
  of \<open>is_release()\<close> and the two path look-ups on the host target, whose type is opaque.
\<close>

record 'h swift_backtrace =
  source_dir :: string
  build_dir :: string
  is_release :: bool
  verbose_build :: bool
  test_swift_backtrace :: bool
  install_swift_backtrace :: bool
  install_toolchain_path :: "'h \<Rightarrow> string"
  native_toolchain_path :: "'h \<Rightarrow> string"

definition product_source_name :: string where
  "product_source_name = ''swift-backtrace''"

text \<open>The list \<open>helper_cmd\<close> that \<open>run_build_script_helper\<close> builds.\<close>

definition helper_cmd :: "string \<Rightarrow> 'h swift_backtrace \<Rightarrow> string \<Rightarrow> 'h \<Rightarrow> string list" where
  "helper_cmd cwd self act host_target =
     (let configuration = (if is_release self then ''release'' else ''debug'');
          package_path = os_path_join (source_dir self)
                           [''..'', ''swift'', ''tools'', ''swift-backtrace''];
          package_path = abspath cwd package_path;
          script_path = os_path_join package_path [''build-script-helper.py''];
          install_toolchain_path = install_toolchain_path self host_target;
          install_path = os_path_join install_toolchain_path [''libexec'', ''swift''];
          helper_cmd = [script_path, act,
                        ''--toolchain'', native_toolchain_path self host_target,
                        ''--configuration'', configuration,
                        ''--build-path'', build_dir self,
                        ''--package-path'', package_path,
                        ''--install-path'', install_path];
          helper_cmd = (if verbose_build self then helper_cmd @ [''--verbose'']
                        else helper_cmd)
      in helper_cmd)"

text \<open>
  \<open>shell.call\<close> belongs to the orchestrator and is a parameter; the descriptor hands it
  the command and nothing else.
\<close>

definition run_build_script_helper ::
  "(string list \<Rightarrow> 'r) \<Rightarrow> string \<Rightarrow> 'h swift_backtrace \<Rightarrow> string \<Rightarrow> 'h \<Rightarrow> 'r" where
  "run_build_script_helper shell_call cwd self act host_target =
     shell_call (helper_cmd cwd self act host_target)"

definition should_build :: "'h swift_backtrace \<Rightarrow> 'h \<Rightarrow> bool" where
  "should_build self host_target = True"

definition build :: "(string list \<Rightarrow> 'r) \<Rightarrow> string \<Rightarrow> 'h swift_backtrace \<Rightarrow> 'h \<Rightarrow> 'r" where
  "build shell_call cwd self host_target =
     run_build_script_helper shell_call cwd self ''build'' host_target"

definition should_test :: "'h swift_backtrace \<Rightarrow> 'h \<Rightarrow> bool" where
  "should_test self host_target = test_swift_backtrace self"

definition test :: "(string list \<Rightarrow> 'r) \<Rightarrow> string \<Rightarrow> 'h swift_backtrace \<Rightarrow> 'h \<Rightarrow> 'r" where
  "test shell_call cwd self host_target =
     run_build_script_helper shell_call cwd self ''test'' host_target"

definition should_install :: "'h swift_backtrace \<Rightarrow> 'h \<Rightarrow> bool" where
  "should_install self host_target = install_swift_backtrace self"

definition install :: "(string list \<Rightarrow> 'r) \<Rightarrow> string \<Rightarrow> 'h swift_backtrace \<Rightarrow> 'h \<Rightarrow> 'r" where
  "install shell_call cwd self host_target =
     run_build_script_helper shell_call cwd self ''install'' host_target"

text \<open>The product classes that \<open>get_dependencies\<close> names.\<close>

datatype product_class =
  CMark | LLVM | LibCXX | LibICU | Swift | LibDispatch | Foundation | XCTest | LLBuild | SwiftPM

text \<open>A class method: it receives the class and reads nothing of it.\<close>

definition get_dependencies :: "'c \<Rightarrow> product_class list" where
  "get_dependencies cls =
     [CMark, LLVM, LibCXX, LibICU, Swift, LibDispatch, Foundation, XCTest, LLBuild, SwiftPM]"

text \<open>A descriptor for concrete runs.\<close>

definition example_product :: "nat swift_backtrace" where
  "example_product =
     \<lparr>source_dir = ''/work/swift-backtrace'', build_dir = ''/work/build'',
      is_release = True, verbose_build = False, test_swift_backtrace = False,
      install_swift_backtrace = True,
      install_toolchain_path = (\<lambda>h. ''/inst/usr''),
      native_toolchain_path = (\<lambda>h. ''/opt/toolchain'')\<rparr>"

section \<open>Facts shared by the proofs\<close>

lemma get_args_for_swift_eq:
  "get_args_for_swift args act product extra_args =
     [swift_path args, act, ''--package-path'', package_path args,
      ''--scratch-path'', build_path args, ''--configuration'', configuration args]
     @ extra_args
     @ [if act = ''test'' then ''--test-product'' else ''--product'', product]
     @ (if verbose args then [''--verbose''] else [])"
  by (simp add: get_args_for_swift_def)

lemma join_step_swift: "join_step x ''swift'' \<noteq> [] \<and> last (join_step x ''swift'') = CHR ''t''"
  by (simp add: join_step_def)

lemma swift_path_last: "swift_path args \<noteq> [] \<and> last (swift_path args) = CHR ''t''"
  by (simp add: swift_path_def os_path_join_def join_step_swift)

lemma invoke_swift_returned:
  "sys (get_args_for_swift args act product extra_args) (fs w) = Returned rc out f \<Longrightarrow>
   invoke_swift sys args act product extra_args w =
     (Inr (), \<lparr>fs = f, log = log w @ [Subprocess_call (get_args_for_swift args act product extra_args)]\<rparr>)"
  by (simp add: invoke_swift_def subprocess_call_def)

lemma invoke_swift_spawn_error:
  "sys (get_args_for_swift args act product extra_args) (fs w) = SpawnError \<Longrightarrow>
   invoke_swift sys args act product extra_args w =
     (Inl OSError, w\<lparr>log := log w @ [Subprocess_call (get_args_for_swift args act product extra_args)]\<rparr>)"
  by (simp add: invoke_swift_def subprocess_call_def)

lemma invoke_swift_log:
  "log (snd (invoke_swift sys args act product extra_args w)) =
     log w @ [Subprocess_call (get_args_for_swift args act product extra_args)]"
  by (cases "sys (get_args_for_swift args act product extra_args) (fs w)")
     (simp_all add: invoke_swift_returned invoke_swift_spawn_error)

lemma os_makedirs_exists:
  "path_exists (fs w) p \<Longrightarrow>
   os_makedirs (Some p) w = (Inl FileExistsError, w\<lparr>log := log w @ [Makedirs (Some p)]\<rparr>)"
  by (simp add: os_makedirs_def)

lemma swift_path_not_flag:
  "swift_path args \<notin> {''--package-path'', ''--scratch-path'', ''--configuration'', ''--verbose''}"
  using swift_path_last [of args] by auto

lemma get_binary_path_returned:
  "sys (get_args_for_swift args ''build'' product [''--show-bin-path'']) (fs w) = Returned rc out f \<Longrightarrow>
   fst (get_binary_path sys args product w) =
     (if rc \<noteq> 0 then Inl (CalledProcessError rc)
      else case decode (strip out) of
        Inl e \<Rightarrow> Inl e
      | Inr s \<Rightarrow> Inr (os_path_join s [''swift-backtrace'']))"
  by (simp add: get_binary_path_def subprocess_check_output_def split: sum.splits)

lemma decode_empty: "decode [] = Inr []"
  by (simp add: decode_def)

lemma main_install_exists:
  assumes "action args = ''install''" and "install_path args = Some p"
    and "sys (get_args_for_swift args ''build'' ''swift-backtrace'' []) (fs w) = Returned rc out f"
    and "path_exists f p"
  shows "main sys args w =
           (Inl FileExistsError,
            \<lparr>fs = f,
             log = log w @ [Subprocess_call (get_args_for_swift args ''build'' ''swift-backtrace'' []),
                            Makedirs (Some p)]\<rparr>)"
proof -
  let ?w1 = "\<lparr>fs = f,
              log = log w @ [Subprocess_call (get_args_for_swift args ''build'' ''swift-backtrace'' [])]\<rparr>"
  have b: "invoke_swift sys args ''build'' ''swift-backtrace'' [] w = (Inr (), ?w1)"
    using assms(3) by (rule invoke_swift_returned)
  have "path_exists (fs ?w1) p"
    using assms(4) by simp
  then have d: "os_makedirs (Some p) ?w1 =
                  (Inl FileExistsError, ?w1\<lparr>log := log ?w1 @ [Makedirs (Some p)]\<rparr>)"
    by (rule os_makedirs_exists)
  show ?thesis
    using assms(1,2) by (simp add: main_def b d)
qed

lemma join_libexec_swift:
  "t \<noteq> [] \<Longrightarrow> last t \<noteq> CHR ''/'' \<Longrightarrow>
   os_path_join t [''libexec'', ''swift''] = t @ ''/libexec/swift''"
  by (simp add: os_path_join_def join_step_def)

section \<open>Running the toolchain\<close>

text \<open>
  C1 (as the code has it). For every action verb, product and configuration,
  \<open>invoke_swift\<close> runs the assembled argument vector as one child process and, once the
  child has returned, gives back nothing: the result is the same whatever the exit code
  of the child. For the build and test actions the standalone tool then ends with exit
  status 0, whatever the exit code of the toolchain subprocess.
\<close>

theorem invoke_swift_discards_exit_code:
  assumes "sys (get_args_for_swift args act product extra_args) (fs w) = Returned rc out f"
  shows "invoke_swift sys args act product extra_args w =
           (Inr (), \<lparr>fs = f,
                     log = log w @ [Subprocess_call (get_args_for_swift args act product extra_args)]\<rparr>)
         \<and> (action args = act \<and> act \<in> {''build'', ''test''}
              \<and> product = ''swift-backtrace'' \<and> extra_args = [] \<longrightarrow>
            main sys args w = invoke_swift sys args act product extra_args w
            \<and> exit_status (main sys args w) = 0)"
proof -
  have i: "invoke_swift sys args act product extra_args w =
           (Inr (), \<lparr>fs = f,
                     log = log w @ [Subprocess_call (get_args_for_swift args act product extra_args)]\<rparr>)"
    using assms by (rule invoke_swift_returned)
  have m: "main sys args w = invoke_swift sys args act product extra_args w"
    if "action args = act" "act \<in> {''build'', ''test''}" "product = ''swift-backtrace''" "extra_args = []"
    using that by (auto simp add: main_def)
  show ?thesis
  proof (intro conjI impI)
    show "invoke_swift sys args act product extra_args w =
           (Inr (), \<lparr>fs = f,
                     log = log w @ [Subprocess_call (get_args_for_swift args act product extra_args)]\<rparr>)"
      by (rule i)
  next
    assume c: "action args = act \<and> act \<in> {''build'', ''test''}
              \<and> product = ''swift-backtrace'' \<and> extra_args = []"
    then show "main sys args w = invoke_swift sys args act product extra_args w"
      using m by blast
  next
    assume c: "action args = act \<and> act \<in> {''build'', ''test''}
              \<and> product = ''swift-backtrace'' \<and> extra_args = []"
    then have "main sys args w = invoke_swift sys args act product extra_args w"
      using m by blast
    then show "exit_status (main sys args w) = 0"
      by (simp add: i exit_status_def)
  qed
qed

theorem invoke_swift_discards_exit_code_witness:
  "invoke_swift failing_system scenario_args ''build'' ''swift-backtrace'' [] empty_world =
     (Inr (), \<lparr>fs = fs empty_world,
               log = log empty_world @
                 [Subprocess_call (get_args_for_swift scenario_args ''build'' ''swift-backtrace'' [])]\<rparr>)
   \<and> exit_status (main failing_system scenario_args empty_world) = 0"
proof -
  have h: "failing_system (get_args_for_swift scenario_args ''build'' ''swift-backtrace'' [])
             (fs empty_world) = Returned 1 [] (fs empty_world)"
    by (simp add: failing_system_def)
  have c: "action scenario_args = ''build'' \<and> ''build'' \<in> {''build'', ''test''}
             \<and> ''swift-backtrace'' = ''swift-backtrace'' \<and> ([]::string list) = []"
    by (simp add: scenario_args_def)
  from invoke_swift_discards_exit_code
         [of failing_system scenario_args "''build''" "''swift-backtrace''" "[]" empty_world 1 "[]"
             "fs empty_world", OF h] c
  show ?thesis
    by blast
qed

text \<open>
  C1 as it is written fails: with a toolchain whose child exits with 1, the build action
  of the tool ends with exit status 0, and \<open>invoke_swift\<close> returns what it returns for a
  child that exits with 0.
\<close>

theorem exit_code_not_propagated:
  "failing_system (get_args_for_swift scenario_args ''build'' ''swift-backtrace'' []) (fs empty_world)
     = Returned 1 [] (fs empty_world)
   \<and> exit_status (main failing_system scenario_args empty_world) = 0
   \<and> fst (invoke_swift failing_system scenario_args ''build'' ''swift-backtrace'' [] empty_world)
     = fst (invoke_swift silent_system scenario_args ''build'' ''swift-backtrace'' [] empty_world)"
  by (simp add: failing_system_def silent_system_def exit_status_def main_def invoke_swift_def
      subprocess_call_def scenario_args_def)

section \<open>Argument vectors\<close>

text \<open>
  C2 (as the code has it). For every action verb, product, configuration and list of
  extra arguments the vector is: the compiler path, the verb, --package-path and its
  value, --scratch-path and its value, --configuration and its value, the extra
  arguments, then --test-product P when the verb is test and --product P otherwise, then
  --verbose when configured. For a verb among build, test and install, each of the three
  flags occurs exactly once provided that neither a path, the configuration value, an
  extra argument nor the product name is itself one of the three flag strings.
\<close>

theorem get_args_for_swift_layout:
  "get_args_for_swift args act product extra_args =
     [swift_path args, act, ''--package-path'', package_path args,
      ''--scratch-path'', build_path args, ''--configuration'', configuration args]
     @ extra_args
     @ [if act = ''test'' then ''--test-product'' else ''--product'', product]
     @ (if verbose args then [''--verbose''] else [])
   \<and> (act \<in> {''build'', ''test'', ''install''}
        \<and> (\<forall>flag \<in> {''--package-path'', ''--scratch-path'', ''--configuration''}.
              flag \<notin> {package_path args, build_path args, configuration args, product}
                       \<union> set extra_args) \<longrightarrow>
      count_list (get_args_for_swift args act product extra_args) ''--package-path'' = 1
      \<and> count_list (get_args_for_swift args act product extra_args) ''--scratch-path'' = 1
      \<and> count_list (get_args_for_swift args act product extra_args) ''--configuration'' = 1)"
  using swift_path_not_flag [of args]
  by (auto simp add: get_args_for_swift_eq)

theorem get_args_for_swift_layout_witness:
  "count_list (get_args_for_swift scenario_args ''build'' ''swift-backtrace'' []) ''--package-path'' = 1
   \<and> count_list (get_args_for_swift scenario_args ''build'' ''swift-backtrace'' []) ''--scratch-path'' = 1
   \<and> count_list (get_args_for_swift scenario_args ''build'' ''swift-backtrace'' []) ''--configuration'' = 1"
  using get_args_for_swift_layout [of scenario_args "''build''" "''swift-backtrace''" "[]", THEN conjunct2]
  by (simp add: scenario_args_def)

text \<open>
  C2 as it is written fails for a product whose name is a flag string: the vector for the
  product named --configuration holds --configuration twice.
\<close>

theorem flag_count_counterexample:
  "count_list (get_args_for_swift scenario_args ''build'' ''--configuration'' [])
     ''--configuration'' = 2"
  using swift_path_not_flag [of scenario_args]
  by (simp add: get_args_for_swift_eq scenario_args_def)

text \<open>
  C4. For the build action with product swift-backtrace, release mode, no verbosity,
  package path /src/pkg, build path /tmp/out and toolchain /opt/toolchain, the assembled
  argument vector is exactly /opt/toolchain/bin/swift, build, --package-path, /src/pkg,
  --scratch-path, /tmp/out, --configuration, release, --product, swift-backtrace; and this
  is the vector that \<open>main\<close> hands to the one child process it runs.
\<close>

theorem scenario_build_vector:
  "get_args_for_swift scenario_args ''build'' ''swift-backtrace'' [] =
     [''/opt/toolchain/bin/swift'', ''build'', ''--package-path'', ''/src/pkg'',
      ''--scratch-path'', ''/tmp/out'', ''--configuration'', ''release'',
      ''--product'', ''swift-backtrace'']
   \<and> log (snd (main sys scenario_args w)) =
     log w @ [Subprocess_call
        [''/opt/toolchain/bin/swift'', ''build'', ''--package-path'', ''/src/pkg'',
         ''--scratch-path'', ''/tmp/out'', ''--configuration'', ''release'',
         ''--product'', ''swift-backtrace'']]"
proof -
  have v: "get_args_for_swift scenario_args ''build'' ''swift-backtrace'' [] =
     [''/opt/toolchain/bin/swift'', ''build'', ''--package-path'', ''/src/pkg'',
      ''--scratch-path'', ''/tmp/out'', ''--configuration'', ''release'',
      ''--product'', ''swift-backtrace'']"
    by (simp add: get_args_for_swift_def swift_path_def os_path_join_def join_step_def
        scenario_args_def)
  have m: "main sys scenario_args w =
      invoke_swift sys scenario_args ''build'' ''swift-backtrace'' [] w"
    by (simp add: main_def scenario_args_def)
  show ?thesis
    unfolding m invoke_swift_log by (simp add: v)
qed

text \<open>
  C5 (as the code has it). For every action verb and product, the vector is the vector of
  the same configuration without verbosity, followed by --verbose exactly when the
  configuration is verbose; when verbose is set, --verbose is in the vector and is its
  final element; and when neither the verb, a path, the configuration value, an extra
  argument nor the product name is the string --verbose, it is in the vector if and only
  if verbose is set.
\<close>

theorem verbose_flag_last:
  "get_args_for_swift args act product extra_args =
     get_args_for_swift (args\<lparr>verbose := False\<rparr>) act product extra_args
     @ (if verbose args then [''--verbose''] else [])
   \<and> (verbose args \<longrightarrow>
        ''--verbose'' \<in> set (get_args_for_swift args act product extra_args)
        \<and> last (get_args_for_swift args act product extra_args) = ''--verbose'')
   \<and> (''--verbose'' \<notin> {act, package_path args, build_path args, configuration args, product}
                          \<union> set extra_args \<longrightarrow>
        (''--verbose'' \<in> set (get_args_for_swift args act product extra_args)
           \<longleftrightarrow> verbose args))"
  using swift_path_not_flag [of args]
  by (auto simp add: get_args_for_swift_eq swift_path_def)

theorem verbose_flag_last_witness:
  "last (get_args_for_swift (scenario_args\<lparr>verbose := True\<rparr>) ''test'' ''swift-backtrace'' [])
     = ''--verbose''
   \<and> ''--verbose'' \<notin> set (get_args_for_swift scenario_args ''test'' ''swift-backtrace'' [])"
proof -
  have v: "verbose (scenario_args\<lparr>verbose := True\<rparr>)" "\<not> verbose scenario_args"
    by (simp_all add: scenario_args_def)
  have n: "''--verbose'' \<notin> {''test'', package_path scenario_args, build_path scenario_args,
             configuration scenario_args, ''swift-backtrace''} \<union> set []"
    by (simp add: scenario_args_def)
  from verbose_flag_last [of "scenario_args\<lparr>verbose := True\<rparr>" "''test''" "''swift-backtrace''" "[]"]
       v(1)
  have a: "last (get_args_for_swift (scenario_args\<lparr>verbose := True\<rparr>) ''test'' ''swift-backtrace'' [])
     = ''--verbose''"
    by blast
  from verbose_flag_last [of scenario_args "''test''" "''swift-backtrace''" "[]"] v(2) n
  have b: "''--verbose'' \<notin> set (get_args_for_swift scenario_args ''test'' ''swift-backtrace'' [])"
    by blast
  from a b show ?thesis by blast
qed

text \<open>
  C5 as it is written fails for a product named --verbose: the string is in the vector
  although the configuration is not verbose.
\<close>

theorem verbose_value_counterexample:
  "\<not> verbose scenario_args
   \<and> ''--verbose'' \<in> set (get_args_for_swift scenario_args ''build'' ''--verbose'' [])"
  by (simp add: get_args_for_swift_eq scenario_args_def)

section \<open>The path of the built binary\<close>

text \<open>
  C3 (as the code has it). \<open>get_binary_path\<close> fails, and returns no path, whenever the
  query subprocess cannot be started or exits with a non-zero code. When the query exits
  with 0 and its output is empty once stripped, \<open>get_binary_path\<close> does not fail: it
  returns the relative path swift-backtrace.
\<close>

theorem get_binary_path_outcome:
  "(sys (get_args_for_swift args ''build'' product [''--show-bin-path'']) (fs w) = SpawnError \<longrightarrow>
      fst (get_binary_path sys args product w) = Inl OSError)
   \<and> (sys (get_args_for_swift args ''build'' product [''--show-bin-path'']) (fs w) = Returned rc out f
        \<and> rc \<noteq> 0 \<longrightarrow>
      fst (get_binary_path sys args product w) = Inl (CalledProcessError rc))
   \<and> (sys (get_args_for_swift args ''build'' product [''--show-bin-path'']) (fs w) = Returned 0 out f
        \<and> strip out = [] \<longrightarrow>
      fst (get_binary_path sys args product w) = Inr ''swift-backtrace'')"
proof (intro conjI impI)
  assume "sys (get_args_for_swift args ''build'' product [''--show-bin-path'']) (fs w) = SpawnError"
  then show "fst (get_binary_path sys args product w) = Inl OSError"
    by (simp add: get_binary_path_def subprocess_check_output_def)
next
  assume "sys (get_args_for_swift args ''build'' product [''--show-bin-path'']) (fs w) = Returned rc out f
        \<and> rc \<noteq> 0"
  then show "fst (get_binary_path sys args product w) = Inl (CalledProcessError rc)"
    by (simp add: get_binary_path_returned)
next
  assume "sys (get_args_for_swift args ''build'' product [''--show-bin-path'']) (fs w) = Returned 0 out f
        \<and> strip out = []"
  then show "fst (get_binary_path sys args product w) = Inr ''swift-backtrace''"
    by (simp add: get_binary_path_returned decode_empty os_path_join_def join_step_def)
qed

theorem get_binary_path_outcome_witness:
  "fst (get_binary_path failing_system scenario_args ''swift-backtrace'' empty_world)
     = Inl (CalledProcessError 1)
   \<and> fst (get_binary_path silent_system scenario_args ''swift-backtrace'' empty_world)
     = Inr ''swift-backtrace''
   \<and> fst (get_binary_path (\<lambda>cmd f. SpawnError) scenario_args ''swift-backtrace'' empty_world)
     = Inl OSError"
proof -
  have 1: "failing_system
             (get_args_for_swift scenario_args ''build'' ''swift-backtrace'' [''--show-bin-path''])
             (fs empty_world) = Returned 1 [] (fs empty_world) \<and> (1::int) \<noteq> 0"
    by (simp add: failing_system_def)
  have 2: "silent_system
             (get_args_for_swift scenario_args ''build'' ''swift-backtrace'' [''--show-bin-path''])
             (fs empty_world) = Returned 0 [] (fs empty_world) \<and> strip [] = []"
    by (simp add: silent_system_def strip_def)
  have 3: "(\<lambda>cmd f. SpawnError)
             (get_args_for_swift scenario_args ''build'' ''swift-backtrace'' [''--show-bin-path''])
             (fs empty_world) = SpawnError"
    by simp
  from get_binary_path_outcome
         [of failing_system scenario_args "''swift-backtrace''" empty_world 1 "[]" "fs empty_world"] 1
  have a: "fst (get_binary_path failing_system scenario_args ''swift-backtrace'' empty_world)
             = Inl (CalledProcessError 1)"
    by blast
  from get_binary_path_outcome
         [of silent_system scenario_args "''swift-backtrace''" empty_world 0 "[]" "fs empty_world"] 2
  have b: "fst (get_binary_path silent_system scenario_args ''swift-backtrace'' empty_world)
             = Inr ''swift-backtrace''"
    by blast
  from get_binary_path_outcome
         [of "\<lambda>cmd f. SpawnError" scenario_args "''swift-backtrace''" empty_world] 3
  have c: "fst (get_binary_path (\<lambda>cmd f. SpawnError) scenario_args ''swift-backtrace'' empty_world)
             = Inl OSError"
    by blast
  from a b c show ?thesis by blast
qed

text \<open>
  C3 as it is written fails: a query that exits with 0 and prints nothing makes
  \<open>get_binary_path\<close> return a path.
\<close>

theorem empty_output_counterexample:
  "silent_system (get_args_for_swift scenario_args ''build'' ''swift-backtrace'' [''--show-bin-path''])
     (fs empty_world) = Returned 0 [] (fs empty_world)
   \<and> fst (get_binary_path silent_system scenario_args ''swift-backtrace'' empty_world)
     = Inr ''swift-backtrace''"
  by (simp add: silent_system_def get_binary_path_def subprocess_check_output_def strip_def
      decode_def os_path_join_def join_step_def)

section \<open>The dispatch of \<open>main\<close>\<close>

text \<open>
  C7. When the install action is run and the install directory exists once the build
  subprocess has returned (as it does when it was there before and the build leaves it
  alone), \<open>os.makedirs\<close> raises FileExistsError, the tool ends with exit status 1, and the
  file system is the one the build left: nothing is copied into the directory.
\<close>

theorem install_existing_directory_fails:
  assumes "action args = ''install''" and "install_path args = Some p"
    and "sys (get_args_for_swift args ''build'' ''swift-backtrace'' []) (fs w) = Returned rc out f"
    and "path_exists f p"
  shows "fst (main sys args w) = Inl FileExistsError
         \<and> exit_status (main sys args w) = 1
         \<and> fs (snd (main sys args w)) = f"
  using main_install_exists [of args p sys w rc out f] assms
  by (simp add: exit_status_def)

theorem install_existing_directory_fails_witness:
  "fst (main failing_system install_args installed_world) = Inl FileExistsError
   \<and> exit_status (main failing_system install_args installed_world) = 1
   \<and> fs (snd (main failing_system install_args installed_world)) = fs installed_world"
proof (rule install_existing_directory_fails)
  show "action install_args = ''install''"
    by (simp add: install_args_def)
  show "install_path install_args = Some ''/inst/libexec/swift''"
    by (simp add: install_args_def)
  show "failing_system (get_args_for_swift install_args ''build'' ''swift-backtrace'' [])
          (fs installed_world) = Returned 1 [] (fs installed_world)"
    by (simp add: failing_system_def)
  show "path_exists (fs installed_world) ''/inst/libexec/swift''"
    by (simp add: path_exists_def installed_world_def)
qed

text \<open>
  C8. When the action is any string other than build, test and install, \<open>main\<close> returns
  without running a subprocess and without touching the file system (the world, log
  included, is unchanged), and the tool ends with exit status 0.
\<close>

theorem unknown_action_noop:
  "action args \<notin> {''build'', ''test'', ''install''} \<Longrightarrow>
   main sys args w = (Inr (), w) \<and> exit_status (main sys args w) = 0"
  by (simp add: main_def exit_status_def)

theorem unknown_action_noop_witness:
  "main silent_system (scenario_args\<lparr>action := ''deploy''\<rparr>) empty_world = (Inr (), empty_world)
   \<and> exit_status (main silent_system (scenario_args\<lparr>action := ''deploy''\<rparr>) empty_world) = 0"
proof -
  have "action (scenario_args\<lparr>action := ''deploy''\<rparr>) \<notin> {''build'', ''test'', ''install''}"
    by simp
  then show ?thesis
    by (rule unknown_action_noop)
qed

text \<open>
  C9. The install action is not atomic: the build subprocess is run first, and when the
  install directory exists after it, the failure of \<open>os.makedirs\<close> comes second. The
  effects of the build stay, and the log ends with the attempt to create the directory:
  neither the query for the binary path nor the copy is attempted.
\<close>

theorem install_fails_after_build:
  assumes "action args = ''install''" and "install_path args = Some p"
    and "sys (get_args_for_swift args ''build'' ''swift-backtrace'' []) (fs w) = Returned rc out f"
    and "path_exists f p"
  shows "invoke_swift sys args ''build'' ''swift-backtrace'' [] w =
           (Inr (), \<lparr>fs = f,
              log = log w @ [Subprocess_call (get_args_for_swift args ''build'' ''swift-backtrace'' [])]\<rparr>)
         \<and> main sys args w =
           (Inl FileExistsError,
            \<lparr>fs = f,
             log = log w @ [Subprocess_call (get_args_for_swift args ''build'' ''swift-backtrace'' []),
                            Makedirs (Some p)]\<rparr>)"
  using main_install_exists [of args p sys w rc out f]
    invoke_swift_returned [of sys args "''build''" "''swift-backtrace''" "[]" w rc out f] assms
  by simp

theorem install_fails_after_build_witness:
  "main silent_system install_args installed_world =
     (Inl FileExistsError,
      \<lparr>fs = fs installed_world,
       log = log installed_world @
         [Subprocess_call (get_args_for_swift install_args ''build'' ''swift-backtrace'' []),
          Makedirs (Some ''/inst/libexec/swift'')]\<rparr>)"
proof (rule install_fails_after_build [THEN conjunct2])
  show "action install_args = ''install''"
    by (simp add: install_args_def)
  show "install_path install_args = Some ''/inst/libexec/swift''"
    by (simp add: install_args_def)
  show "silent_system (get_args_for_swift install_args ''build'' ''swift-backtrace'' [])
          (fs installed_world) = Returned 0 [] (fs installed_world)"
    by (simp add: silent_system_def)
  show "path_exists (fs installed_world) ''/inst/libexec/swift''"
    by (simp add: path_exists_def installed_world_def)
qed

section \<open>The product descriptor\<close>

text \<open>
  C6. \<open>get_dependencies\<close> returns the fixed sequence of ten distinct product classes
  CMark, LLVM, LibCXX, LibICU, Swift, LibDispatch, Foundation, XCTest, LLBuild, SwiftPM. It
  takes neither a host target nor a configuration, and its result is the same for every
  class it is called on.
\<close>

theorem get_dependencies_fixed:
  "get_dependencies cls =
     [CMark, LLVM, LibCXX, LibICU, Swift, LibDispatch, Foundation, XCTest, LLBuild, SwiftPM]
   \<and> length (get_dependencies cls) = 10
   \<and> distinct (get_dependencies cls)
   \<and> get_dependencies cls = get_dependencies cls'"
  by (simp add: get_dependencies_def)

text \<open>
  C10. \<open>build\<close>, \<open>test\<close> and \<open>install\<close> hand \<open>shell.call\<close> the command of
  \<open>run_build_script_helper\<close> for their verb; the commands for two verbs differ at index 1,
  the verb, and nowhere else. For every verb the command holds --install-path followed by
  the join of the install toolchain path with libexec and swift, which is
  <installToolchainPath>/libexec/swift when that path is not empty and does not end with
  a separator.
\<close>

theorem helper_cmd_same_for_all_actions:
  "build shell_call cwd self host_target = shell_call (helper_cmd cwd self ''build'' host_target)
   \<and> test shell_call cwd self host_target = shell_call (helper_cmd cwd self ''test'' host_target)
   \<and> install shell_call cwd self host_target = shell_call (helper_cmd cwd self ''install'' host_target)
   \<and> helper_cmd cwd self act host_target = (helper_cmd cwd self act' host_target)[1 := act]
   \<and> take 2 (drop 10 (helper_cmd cwd self act host_target)) =
       [''--install-path'',
        os_path_join (install_toolchain_path self host_target) [''libexec'', ''swift'']]
   \<and> (install_toolchain_path self host_target \<noteq> []
        \<and> last (install_toolchain_path self host_target) \<noteq> CHR ''/'' \<longrightarrow>
      helper_cmd cwd self act host_target ! 11 =
        install_toolchain_path self host_target @ ''/libexec/swift'')"
  by (simp add: build_def test_def install_def run_build_script_helper_def helper_cmd_def
      Let_def join_libexec_swift)

theorem helper_cmd_same_for_all_actions_witness:
  "helper_cmd ''/cwd'' example_product ''test'' (0::nat) ! 11 = ''/inst/usr/libexec/swift''"
proof -
  have h: "install_toolchain_path example_product (0::nat) \<noteq> []
           \<and> last (install_toolchain_path example_product (0::nat)) \<noteq> CHR ''/''"
    by (simp add: example_product_def)
  have e: "install_toolchain_path example_product (0::nat) @ ''/libexec/swift''
             = ''/inst/usr/libexec/swift''"
    by (simp add: example_product_def)
  from helper_cmd_same_for_all_actions
         [of "\<lambda>c. c" "''/cwd''" example_product "0::nat" "''test''" "''test''"] h
  have "helper_cmd ''/cwd'' example_product ''test'' (0::nat) ! 11 =
          install_toolchain_path example_product (0::nat) @ ''/libexec/swift''"
    by blast
  then show ?thesis
    by (simp only: e)
qed

end
